theory Spec2Isabelle
  imports Main "HOL-Library.Sublist"
begin

section \<open>Panoptic segmentation adapters\<close>

text \<open>
  A shallow embedding of \<^verbatim>\<open>src/tasks/panoptic_segmentation/adapters.py\<close>: the output
  adapter's four operations (\<^verbatim>\<open>adapt_output\<close>, \<^verbatim>\<open>adapt_targets\<close>,
  \<^verbatim>\<open>format_predictions\<close>, \<^verbatim>\<open>format_targets\<close>) and the selector functions
  (\<^verbatim>\<open>get_input_adapter\<close>, \<^verbatim>\<open>get_output_adapter\<close>, \<^verbatim>\<open>get_panoptic_adapter\<close>).
\<close>

subsection \<open>Values, tensors and exceptions\<close>

text \<open>
  A tensor is a scalar (a 0-dimensional tensor) or a stack of tensors along its leading
  axis; \<open>Stack xs\<close> has leading dimension \<open>length xs\<close>. The element type is a
  parameter: the adapters never look at an element.
\<close>

datatype 'a tensor = Scalar 'a | Stack "'a tensor list"

text \<open>
  The Python values that the adapters handle: \<^verbatim>\<open>None\<close>, a tensor, and a dictionary
  (the literal \<^verbatim>\<open>{}\<close> is the default of \<^verbatim>\<open>loss_dict\<close>).
\<close>

datatype 'a pyval = PyNone | PyTensor "'a tensor" | PyDict "(string \<times> 'a pyval) list"

text \<open>A dictionary with string keys, as a partial map.\<close>

type_synonym 'a pydict = "string \<rightharpoonup> 'a pyval"

text \<open>
  The exceptions that the code can raise. \<^verbatim>\<open>KeyError\<close> carries the key,
  \<^verbatim>\<open>AttributeError\<close> the attribute name, \<^verbatim>\<open>ValueError\<close> its message.
  \<open>OtherError\<close> stands for whatever the libraries outside the repository raise.
\<close>

datatype key = Name string | Index nat

datatype error =
    KeyError key
  | AttributeError string
  | IndexError
  | TypeError
  | ValueError string
  | OtherError string

text \<open>Sequencing of two steps, the second of which runs only when the first returns.\<close>

definition bind_err :: "error + 'b \<Rightarrow> ('b \<Rightarrow> error + 'c) \<Rightarrow> error + 'c" where
  "bind_err m f = (case m of Inl e \<Rightarrow> Inl e | Inr v \<Rightarrow> f v)"

text \<open>\<^verbatim>\<open>d[k]\<close> and \<^verbatim>\<open>d.get(k, None)\<close> on a dictionary.\<close>

definition dict_getitem :: "'a pydict \<Rightarrow> string \<Rightarrow> error + 'a pyval" where
  "dict_getitem d k = (case d k of None \<Rightarrow> Inl (KeyError (Name k)) | Some v \<Rightarrow> Inr v)"

definition dict_get :: "'a pydict \<Rightarrow> string \<Rightarrow> 'a pyval" where
  "dict_get d k = (case d k of None \<Rightarrow> PyNone | Some v \<Rightarrow> v)"

text \<open>
  \<^verbatim>\<open>v.shape[0]\<close>: only a tensor has a shape, and the shape of a 0-dimensional tensor
  is the empty tuple.
\<close>

fun py_shape0 :: "'a pyval \<Rightarrow> error + nat" where
  "py_shape0 (PyTensor (Stack xs)) = Inr (length xs)"
| "py_shape0 (PyTensor (Scalar x)) = Inl IndexError"
| "py_shape0 PyNone = Inl (AttributeError ''shape'')"
| "py_shape0 (PyDict d) = Inl (AttributeError ''shape'')"

text \<open>
  \<^verbatim>\<open>v[i]\<close> for an index \<open>i\<close> of \<^verbatim>\<open>range(n)\<close>: a slice of a tensor along its leading
  axis. \<^verbatim>\<open>None\<close> is not subscriptable, and a dictionary with string keys has no
  integer key.
\<close>

fun py_getitem :: "'a pyval \<Rightarrow> nat \<Rightarrow> error + 'a pyval" where
  "py_getitem (PyTensor (Stack xs)) i =
     (if i < length xs then Inr (PyTensor (xs ! i)) else Inl IndexError)"
| "py_getitem (PyTensor (Scalar x)) i = Inl IndexError"
| "py_getitem PyNone i = Inl TypeError"
| "py_getitem (PyDict d) i = Inl (KeyError (Index i))"

text \<open>
  \<^verbatim>\<open>torch.argmax(v, dim=-1)\<close>. The reduction is the library's, so it is a parameter
  \<open>argmax\<close> of the model, which may fail (on a tensor with an empty last axis).
\<close>

fun py_argmax :: "('a tensor \<Rightarrow> error + 'a tensor) \<Rightarrow> 'a pyval \<Rightarrow> error + 'a pyval" where
  "py_argmax argmax (PyTensor t) = map_sum id PyTensor (argmax t)"
| "py_argmax argmax PyNone = Inl TypeError"
| "py_argmax argmax (PyDict d) = Inl TypeError"

text \<open>
  The loop \<^verbatim>\<open>result = []; for i in ...: result.append(f(i)); return result\<close>, which
  stops at the first \<open>i\<close> where the body raises.
\<close>

fun collect :: "(nat \<Rightarrow> error + 'r) \<Rightarrow> nat list \<Rightarrow> 'r list \<Rightarrow> error + 'r list" where
  "collect f [] result = Inr result"
| "collect f (i # is) result =
     (case f i of Inl e \<Rightarrow> Inl e | Inr r \<Rightarrow> collect f is (result @ [r]))"

subsection \<open>The output adapter: targets\<close>

text \<open>
  \<^verbatim>\<open>PanopticSegmentationOutputAdapter.adapt_targets\<close>: the three \<^verbatim>\<open>if\<close> statements,
  each adding (or not) one key to \<^verbatim>\<open>adapted_targets\<close>. No statement of it can raise.
\<close>

definition adapt_targets :: "'a pydict \<Rightarrow> 'a pydict" where
  "adapt_targets targets =
     (let adapted0 = Map.empty;
          adapted1 =
            (case targets ''panoptic_masks'' of
               Some v \<Rightarrow> adapted0(''labels'' \<mapsto> v)
             | None \<Rightarrow>
                 (case targets ''labels'' of
                    Some v \<Rightarrow> adapted0(''labels'' \<mapsto> v)
                  | None \<Rightarrow> adapted0));
          adapted2 =
            (case targets ''bounding_boxes'' of
               Some v \<Rightarrow> adapted1(''boxes'' \<mapsto> v)
             | None \<Rightarrow> adapted1);
          adapted3 =
            (case targets ''class_labels'' of
               Some v \<Rightarrow> adapted2(''class_labels'' \<mapsto> v)
             | None \<Rightarrow> adapted2)
      in adapted3)"

text \<open>The message of the \<^verbatim>\<open>ValueError\<close> that \<^verbatim>\<open>format_targets\<close> raises.\<close>

definition targets_message :: string where
  "targets_message = ''Targets must contain 'panoptic_masks' or 'labels'' @ [CHR 0x27]"

text \<open>The body of the loop of \<^verbatim>\<open>format_targets\<close>: the record of sample \<open>i\<close>.\<close>

definition target_record ::
  "'a pyval \<Rightarrow> 'a pyval \<Rightarrow> 'a pyval \<Rightarrow> nat \<Rightarrow> error + 'a pydict" where
  "target_record masks boxes class_labels i =
     bind_err (py_getitem masks i) (\<lambda>m.
       let target_dict = [''panoptic_masks'' \<mapsto> m] in
       bind_err
         (if boxes \<noteq> PyNone
          then bind_err (py_getitem boxes i) (\<lambda>b. Inr (target_dict(''bounding_boxes'' \<mapsto> b)))
          else Inr target_dict) (\<lambda>target_dict1.
       if class_labels \<noteq> PyNone
       then bind_err (py_getitem class_labels i)
              (\<lambda>c. Inr (target_dict1(''class_labels'' \<mapsto> c)))
       else Inr target_dict1))"

text \<open>\<^verbatim>\<open>PanopticSegmentationOutputAdapter.format_targets\<close>.\<close>

definition format_targets :: "'a pydict \<Rightarrow> error + 'a pydict list" where
  "format_targets targets =
     bind_err
       (case targets ''panoptic_masks'' of
          Some v \<Rightarrow> Inr v
        | None \<Rightarrow>
            (case targets ''labels'' of
               Some v \<Rightarrow> Inr v
             | None \<Rightarrow> Inl (ValueError targets_message))) (\<lambda>masks.
     let boxes = dict_get targets ''bounding_boxes'';
         class_labels = dict_get targets ''class_labels''
     in bind_err (py_shape0 masks) (\<lambda>n.
          collect (target_record masks boxes class_labels) [0..<n] []))"

subsection \<open>The output adapter: model outputs\<close>

text \<open>
  The raw result of a forward pass, which \<^verbatim>\<open>adapt_output\<close> reads in two styles:
  \<open>attrs\<close> are its attributes (what \<^verbatim>\<open>getattr\<close> and \<^verbatim>\<open>outputs.name\<close> see), and
  \<open>items\<close> are its keys when it is an instance of \<^verbatim>\<open>dict\<close> (\<open>None\<close> when it is
  not). A result object of the model library has both; a plain dictionary has keys and
  none of the attributes that the adapter reads.
\<close>

record 'a rawobj =
  attrs :: "string \<rightharpoonup> 'a pyval"
  items :: "'a pydict option"

definition plain_dict :: "'a pydict \<Rightarrow> 'a rawobj" where
  "plain_dict d = \<lparr>attrs = Map.empty, items = Some d\<rparr>"

text \<open>\<^verbatim>\<open>getattr(outputs, name, default)\<close> and \<^verbatim>\<open>outputs.name\<close>.\<close>

definition getattr_default :: "'a rawobj \<Rightarrow> string \<Rightarrow> 'a pyval \<Rightarrow> 'a pyval" where
  "getattr_default outputs name dflt =
     (case attrs outputs name of None \<Rightarrow> dflt | Some v \<Rightarrow> v)"

definition getattr :: "'a rawobj \<Rightarrow> string \<Rightarrow> error + 'a pyval" where
  "getattr outputs name =
     (case attrs outputs name of None \<Rightarrow> Inl (AttributeError name) | Some v \<Rightarrow> Inr v)"

text \<open>
  \<^verbatim>\<open>PanopticSegmentationOutputAdapter.adapt_output\<close>. The loss is read first, then the
  entries of the returned dictionary in the order in which they are written.
\<close>

definition adapt_output :: "'a rawobj \<Rightarrow> error + 'a pydict" where
  "adapt_output outputs =
     (let loss0 = getattr_default outputs ''loss'' PyNone;
          loss =
            (case items outputs of
               Some d \<Rightarrow> if loss0 = PyNone then dict_get d ''loss'' else loss0
             | None \<Rightarrow> loss0)
      in bind_err (getattr outputs ''logits'') (\<lambda>logits.
         bind_err (getattr outputs ''pred_boxes'') (\<lambda>pred_boxes.
         bind_err (getattr outputs ''pred_masks'') (\<lambda>pred_masks.
         bind_err (getattr outputs ''pred_panoptic_seg'') (\<lambda>pred_panoptic_seg.
         Inr [''loss'' \<mapsto> loss,
              ''logits'' \<mapsto> logits,
              ''pred_boxes'' \<mapsto> pred_boxes,
              ''pred_masks'' \<mapsto> pred_masks,
              ''pred_panoptic_seg'' \<mapsto> pred_panoptic_seg,
              ''loss_dict'' \<mapsto> getattr_default outputs ''loss_dict'' (PyDict [])])))))"

text \<open>The body of the loop of \<^verbatim>\<open>format_predictions\<close>: the record of sample \<open>i\<close>.\<close>

definition prediction_record ::
  "('a tensor \<Rightarrow> error + 'a tensor) \<Rightarrow> 'a pyval \<Rightarrow> 'a pyval \<Rightarrow> 'a pyval \<Rightarrow> 'a pyval \<Rightarrow> nat
     \<Rightarrow> error + 'a pydict" where
  "prediction_record argmax logits pred_boxes pred_masks pred_panoptic_seg i =
     bind_err (py_getitem pred_panoptic_seg i) (\<lambda>p.
     bind_err (py_getitem pred_masks i) (\<lambda>m.
     bind_err (py_getitem pred_boxes i) (\<lambda>b.
     bind_err (py_getitem logits i) (\<lambda>l.
     bind_err (py_argmax argmax l) (\<lambda>c.
     Inr [''panoptic_masks'' \<mapsto> p,
          ''instance_masks'' \<mapsto> m,
          ''bounding_boxes'' \<mapsto> b,
          ''class_predictions'' \<mapsto> c])))))"

text \<open>\<^verbatim>\<open>PanopticSegmentationOutputAdapter.format_predictions\<close>.\<close>

definition format_predictions ::
  "('a tensor \<Rightarrow> error + 'a tensor) \<Rightarrow> 'a pydict \<Rightarrow> error + 'a pydict list" where
  "format_predictions argmax outputs =
     bind_err (dict_getitem outputs ''logits'') (\<lambda>logits.
     bind_err (dict_getitem outputs ''pred_boxes'') (\<lambda>pred_boxes.
     bind_err (dict_getitem outputs ''pred_masks'') (\<lambda>pred_masks.
     bind_err (dict_getitem outputs ''pred_panoptic_seg'') (\<lambda>pred_panoptic_seg.
     bind_err (py_shape0 logits) (\<lambda>n.
     collect (prediction_record argmax logits pred_boxes pred_masks pred_panoptic_seg)
       [0..<n] [])))))"

subsection \<open>The selectors\<close>

text \<open>
  A model name is a Python string: the list of its Unicode code points. \<open>str\<close> is the
  string of an ASCII literal.
\<close>

type_synonym pystr = "nat list"

definition str :: "string \<Rightarrow> pystr" where
  "str s = map of_char s"

text \<open>
  \<^verbatim>\<open>str.lower\<close> is the built-in lower-casing of Python, over all of Unicode (the Kelvin
  sign, code point 8490, becomes \<^verbatim>\<open>k\<close>). It is the parameter \<open>str_lower\<close> of the
  selectors. What the theorems use of it is stated with the next two definitions: on a
  string of ASCII characters it replaces each of the letters \<^verbatim>\<open>A\<close> to \<^verbatim>\<open>Z\<close> (codes
  65 to 90) by its lower-case letter and leaves the other characters.
\<close>

definition is_ascii :: "pystr \<Rightarrow> bool" where
  "is_ascii s = list_all (\<lambda>c. c < 128) s"

definition ascii_lower :: "nat \<Rightarrow> nat" where
  "ascii_lower c = (if 65 \<le> c \<and> c \<le> 90 then c + 32 else c)"

text \<open>
  The input adapters. A \<^verbatim>\<open>Mask2FormerInputAdapter\<close> holds its image size and the
  processor that \<^verbatim>\<open>AutoImageProcessor.from_pretrained\<close> returned; that call belongs to
  the model library and is the parameter \<open>from_pretrained\<close>, which may fail.
\<close>

datatype 'p input_adapter = NoOpInputAdapter | Mask2FormerInputAdapter int 'p

datatype output_adapter = PanopticSegmentationOutputAdapter

text \<open>An argument with a default value: \<open>None\<close> when the caller leaves it out.\<close>

definition image_size_arg :: "int option \<Rightarrow> int" where
  "image_size_arg a = (case a of None \<Rightarrow> 512 | Some n \<Rightarrow> n)"

text \<open>\<^verbatim>\<open>Mask2FormerInputAdapter.__init__\<close>.\<close>

definition Mask2FormerInputAdapter_init ::
  "(pystr \<Rightarrow> int \<Rightarrow> error + 'p) \<Rightarrow> pystr \<Rightarrow> int option \<Rightarrow> error + 'p input_adapter" where
  "Mask2FormerInputAdapter_init from_pretrained model_name image_size =
     (let size = image_size_arg image_size
      in bind_err (from_pretrained model_name size) (\<lambda>processor.
           Inr (Mask2FormerInputAdapter size processor)))"

text \<open>\<^verbatim>\<open>get_input_adapter\<close>, \<^verbatim>\<open>get_output_adapter\<close> and \<^verbatim>\<open>get_panoptic_adapter\<close>.\<close>

definition get_input_adapter ::
  "(pystr \<Rightarrow> pystr) \<Rightarrow> (pystr \<Rightarrow> int \<Rightarrow> error + 'p) \<Rightarrow> pystr \<Rightarrow> int option
     \<Rightarrow> error + 'p input_adapter" where
  "get_input_adapter str_lower from_pretrained model_name image_size =
     (let size = image_size_arg image_size;
          model_name_lower = str_lower model_name
      in if sublist (str ''mask2former'') model_name_lower
         then Mask2FormerInputAdapter_init from_pretrained model_name (Some size)
         else Inr NoOpInputAdapter)"

definition get_output_adapter :: "pystr \<Rightarrow> output_adapter" where
  "get_output_adapter model_name = PanopticSegmentationOutputAdapter"

definition get_panoptic_adapter ::
  "(pystr \<Rightarrow> pystr) \<Rightarrow> (pystr \<Rightarrow> int \<Rightarrow> error + 'p) \<Rightarrow> pystr \<Rightarrow> int option
     \<Rightarrow> error + 'p input_adapter" where
  "get_panoptic_adapter str_lower from_pretrained model_name image_size =
     get_input_adapter str_lower from_pretrained model_name (Some (image_size_arg image_size))"

subsection \<open>Slices in records\<close>

text \<open>
  The record \<open>r\<close> holds under the key \<open>k\<close> the slice of the batched value \<open>v\<close> at
  index \<open>i\<close>.
\<close>

definition holds_slice :: "'a pydict \<Rightarrow> string \<Rightarrow> 'a pyval \<Rightarrow> nat \<Rightarrow> bool" where
  "holds_slice r k v i = (case r k of None \<Rightarrow> False | Some s \<Rightarrow> py_getitem v i = Inr s)"

subsection \<open>Example batches\<close>

text \<open>
  A batch of two samples, and a batch whose fields disagree on the leading dimension.
  \<open>argmax_zero\<close> stands for the library's argmax in the examples: it returns the index
  \<open>0\<close> for every tensor.
\<close>

definition argmax_zero :: "int tensor \<Rightarrow> error + int tensor" where
  "argmax_zero t = Inr (Scalar 0)"

definition example_outputs :: "int pydict" where
  "example_outputs =
     [''logits'' \<mapsto> PyTensor (Stack [Stack [Scalar 1, Scalar 5], Stack [Scalar 7, Scalar 2]]),
      ''pred_boxes'' \<mapsto> PyTensor (Stack [Scalar 10, Scalar 11]),
      ''pred_masks'' \<mapsto> PyTensor (Stack [Scalar 20, Scalar 21]),
      ''pred_panoptic_seg'' \<mapsto> PyTensor (Stack [Scalar 30, Scalar 31])]"

definition example_targets :: "int pydict" where
  "example_targets =
     [''panoptic_masks'' \<mapsto> PyTensor (Stack [Scalar 40, Scalar 41]),
      ''bounding_boxes'' \<mapsto> PyTensor (Stack [Scalar 50, Scalar 51])]"

definition uneven_outputs :: "int pydict" where
  "uneven_outputs =
     [''logits'' \<mapsto> PyTensor (Stack [Stack [Scalar 1, Scalar 5]]),
      ''pred_boxes'' \<mapsto> PyTensor (Stack [Scalar 10, Scalar 11]),
      ''pred_masks'' \<mapsto> PyTensor (Stack [Scalar 20]),
      ''pred_panoptic_seg'' \<mapsto> PyTensor (Stack [Scalar 30])]"

text \<open>
  A lower-casing for the examples: the ASCII letters and the Kelvin sign. \<open>kelvin_name\<close>
  is \<^verbatim>\<open>mask2former\<close> with the Kelvin sign for its \<^verbatim>\<open>k\<close>. The example processor
  lookup returns the image size it is given.
\<close>

definition example_lower :: "pystr \<Rightarrow> pystr" where
  "example_lower s = map (\<lambda>c. if c = 8490 then 107 else ascii_lower c) s"

definition kelvin_name :: pystr where
  "kelvin_name = str ''mas'' @ [8490] @ str ''2former''"

definition example_from_pretrained :: "pystr \<Rightarrow> int \<Rightarrow> error + int" where
  "example_from_pretrained model_name image_size = Inr image_size"

section \<open>Properties\<close>

subsection \<open>Auxiliary facts\<close>

lemma bind_err_simps:
  "bind_err (Inl e) f = Inl e" "bind_err (Inr v) f = f v"
  by (simp_all add: bind_err_def)

lemma adapt_targets_apply:
  "adapt_targets targets k =
     (if k = ''labels''
      then (case targets ''panoptic_masks'' of Some v \<Rightarrow> Some v | None \<Rightarrow> targets ''labels'')
      else if k = ''boxes'' then targets ''bounding_boxes''
      else if k = ''class_labels'' then targets ''class_labels''
      else None)"
  by (simp add: adapt_targets_def Let_def split: option.splits)

lemma adapt_targets_SomeD:
  assumes "adapt_targets targets k = Some v"
  shows "k = ''labels'' \<and> (targets ''panoptic_masks'' = Some v \<or> targets ''labels'' = Some v)
       \<or> k = ''boxes'' \<and> targets ''bounding_boxes'' = Some v
       \<or> k = ''class_labels'' \<and> targets ''class_labels'' = Some v"
proof -
  consider "k = ''labels''" | "k \<noteq> ''labels''" "k = ''boxes''"
    | "k \<noteq> ''labels''" "k \<noteq> ''boxes''" "k = ''class_labels''"
    | "k \<noteq> ''labels''" "k \<noteq> ''boxes''" "k \<noteq> ''class_labels''" by blast
  then show ?thesis
  proof cases
    case 1
    from assms have "(case targets ''panoptic_masks'' of Some v \<Rightarrow> Some v | None \<Rightarrow> targets ''labels'')
        = Some v"
      unfolding 1 by (simp add: adapt_targets_apply)
    then have "targets ''panoptic_masks'' = Some v \<or> targets ''labels'' = Some v"
      by (cases "targets ''panoptic_masks''") simp_all
    with 1 show ?thesis by blast
  next
    case 2
    from assms have "targets ''bounding_boxes'' = Some v"
      unfolding 2(2) by (simp add: adapt_targets_apply)
    with 2 show ?thesis by blast
  next
    case 3
    from assms have "targets ''class_labels'' = Some v"
      unfolding 3(3) by (simp add: adapt_targets_apply)
    with 3 show ?thesis by blast
  next
    case 4
    with assms have False by (simp add: adapt_targets_apply)
    then show ?thesis ..
  qed
qed

lemma sublist_map_iff:
  "sublist p (map f s) \<longleftrightarrow> (\<exists>u. sublist u s \<and> map f u = p)"
proof
  assume "sublist p (map f s)"
  then obtain a b where "map f s = a @ p @ b" by (auto simp: sublist_def)
  then have "\<exists>us vs. s = us @ vs \<and> a = map f us \<and> p @ b = map f vs"
    by (simp only: map_eq_append_conv)
  then obtain a' r where r: "s = a' @ r" "p @ b = map f r" by blast
  from r(2) have "\<exists>us vs. r = us @ vs \<and> p = map f us \<and> b = map f vs"
    by (simp only: append_eq_map_conv)
  then obtain u b' where "r = u @ b'" "p = map f u" by blast
  with r have "s = a' @ u @ b'" "map f u = p" by simp_all
  then show "\<exists>u. sublist u s \<and> map f u = p" by (auto simp: sublist_def)
next
  assume "\<exists>u. sublist u s \<and> map f u = p"
  then obtain u a b where "s = a @ u @ b" "map f u = p" by (auto simp: sublist_def)
  then have "map f s = map f a @ p @ map f b" by simp
  then show "sublist p (map f s)" unfolding sublist_def by blast
qed

lemma ascii_lower_mask2former:
  "map ascii_lower (str ''mask2former'') = str ''mask2former''"
  by (simp add: str_def ascii_lower_def)

lemma unknown_is_ascii: "is_ascii (str ''totally-unknown-arch'')"
  by (simp add: is_ascii_def str_def)

lemma unknown_no_match:
  "\<not> sublist (str ''mask2former'') (map ascii_lower (str ''totally-unknown-arch''))"
  by (simp add: str_def ascii_lower_def sublist_code prefix_code)

lemma example_lower_ascii: "is_ascii s \<Longrightarrow> example_lower s = map ascii_lower s"
  by (induction s) (simp_all add: is_ascii_def example_lower_def)

lemma kelvin_match: "sublist (str ''mask2former'') (example_lower kelvin_name)"
  by (simp add: str_def kelvin_name_def example_lower_def ascii_lower_def)

lemma py_shape0_Inr:
  "py_shape0 v = Inr n \<longleftrightarrow> (\<exists>xs. v = PyTensor (Stack xs) \<and> length xs = n)"
  by (induction v rule: py_shape0.induct) auto

lemma collect_Inr:
  "(\<And>i. i \<in> set js \<Longrightarrow> f i = Inr (g i)) \<Longrightarrow> collect f js acc = Inr (acc @ map g js)"
  by (induction js arbitrary: acc) simp_all

lemma collect_Inl:
  assumes "\<And>i. i \<in> set js \<Longrightarrow> f i = Inl e \<or> (\<exists>r. f i = Inr r)"
    and "\<exists>i \<in> set js. f i = Inl e"
  shows "collect f js acc = Inl e"
  using assms
proof (induction js arbitrary: acc)
  case Nil
  then show ?case by simp
next
  case (Cons j js)
  show ?case
  proof (cases "f j")
    case (Inl e')
    with Cons.prems(1) [of j] show ?thesis by simp
  next
    case (Inr r)
    with Cons.prems(2) have "\<exists>i \<in> set js. f i = Inl e" by auto
    with Cons.IH [of "acc @ [r]"] Cons.prems(1) Inr show ?thesis by simp
  qed
qed

lemma prediction_record_Inr:
  assumes "py_shape0 logits = Inr N" "py_shape0 pred_boxes = Inr Nb"
    "py_shape0 pred_masks = Inr Nm" "py_shape0 pred_panoptic_seg = Inr Np"
    and "i < N" "i < Nb" "i < Nm" "i < Np"
    and "bind_err (py_getitem logits i) (py_argmax argmax) = Inr c"
  shows "\<exists>p m b. py_getitem pred_panoptic_seg i = Inr p \<and> py_getitem pred_masks i = Inr m
      \<and> py_getitem pred_boxes i = Inr b
      \<and> prediction_record argmax logits pred_boxes pred_masks pred_panoptic_seg i =
          Inr [''panoptic_masks'' \<mapsto> p, ''instance_masks'' \<mapsto> m, ''bounding_boxes'' \<mapsto> b,
               ''class_predictions'' \<mapsto> c]"
  using assms by (auto simp: py_shape0_Inr prediction_record_def bind_err_simps)

lemma prediction_record_IndexError:
  assumes "py_shape0 logits = Inr N" "py_shape0 pred_boxes = Inr Nb"
    "py_shape0 pred_masks = Inr Nm" "py_shape0 pred_panoptic_seg = Inr Np"
    and "\<not> (i < Nb \<and> i < Nm \<and> i < Np)"
  shows "prediction_record argmax logits pred_boxes pred_masks pred_panoptic_seg i = Inl IndexError"
  using assms by (auto simp: py_shape0_Inr prediction_record_def bind_err_simps)

lemma collect_all_Inr:
  assumes "\<And>i. i \<in> set js \<Longrightarrow> \<exists>r. f i = Inr r"
  shows "\<exists>rs. collect f js [] = Inr rs \<and> length rs = length js
           \<and> (\<forall>k < length js. f (js ! k) = Inr (rs ! k))"
proof -
  have h: "\<And>i. i \<in> set js \<Longrightarrow> f i = Inr (projr (f i))"
    using assms by force
  then have "collect f js [] = Inr ([] @ map (\<lambda>i. projr (f i)) js)"
    by (rule collect_Inr)
  moreover have "\<forall>k < length js. f (js ! k) = Inr (map (\<lambda>i. projr (f i)) js ! k)"
    using h by simp
  ultimately show ?thesis by simp
qed

lemma collect_range:
  assumes "\<And>i. i < n \<Longrightarrow> \<exists>r. f i = Inr r"
  shows "\<exists>rs. collect f [0..<n] [] = Inr rs \<and> length rs = n \<and> (\<forall>i < n. f i = Inr (rs ! i))"
  using collect_all_Inr [of "[0..<n]" f] assms by simp

lemma py_getitem_Inr:
  assumes "py_shape0 v = Inr n" and "i < n"
  shows "\<exists>s. py_getitem v i = Inr s"
  using assms by (auto simp: py_shape0_Inr)

lemma optional_slice:
  assumes "v = PyNone \<or> py_shape0 v = Inr N" and "i < N"
  shows "\<exists>r. (if v \<noteq> PyNone
               then bind_err (py_getitem v i) (\<lambda>b. Inr (d(k \<mapsto> b)))
               else Inr d) = Inr r
      \<and> (\<forall>k'. k' \<noteq> k \<longrightarrow> r k' = d k')
      \<and> (if v = PyNone then r k = d k else holds_slice r k v i)"
proof (cases "v = PyNone")
  case True
  then show ?thesis by simp
next
  case False
  with assms obtain s where "py_getitem v i = Inr s"
    using py_getitem_Inr by blast
  with False show ?thesis
    by (simp add: bind_err_simps holds_slice_def)
qed

lemma target_record_Inr:
  assumes "py_shape0 masks = Inr N"
    and "boxes = PyNone \<or> py_shape0 boxes = Inr N"
    and "class_labels = PyNone \<or> py_shape0 class_labels = Inr N"
    and "i < N"
  shows "\<exists>r. target_record masks boxes class_labels i = Inr r
      \<and> holds_slice r ''panoptic_masks'' masks i
      \<and> (if boxes = PyNone then r ''bounding_boxes'' = None
          else holds_slice r ''bounding_boxes'' boxes i)
      \<and> (if class_labels = PyNone then r ''class_labels'' = None
          else holds_slice r ''class_labels'' class_labels i)"
proof -
  from assms(1,4) obtain m where m: "py_getitem masks i = Inr m"
    using py_getitem_Inr by blast
  let ?d = "[''panoptic_masks'' \<mapsto> m]"
  from optional_slice [OF assms(2,4), of ?d "''bounding_boxes''"]
  obtain d1 where d1:
    "(if boxes \<noteq> PyNone
      then bind_err (py_getitem boxes i) (\<lambda>b. Inr (?d(''bounding_boxes'' \<mapsto> b)))
      else Inr ?d) = Inr d1"
    "\<forall>k'. k' \<noteq> ''bounding_boxes'' \<longrightarrow> d1 k' = ?d k'"
    "if boxes = PyNone then d1 ''bounding_boxes'' = ?d ''bounding_boxes''
     else holds_slice d1 ''bounding_boxes'' boxes i"
    by blast
  from optional_slice [OF assms(3,4), of d1 "''class_labels''"]
  obtain d2 where d2:
    "(if class_labels \<noteq> PyNone
      then bind_err (py_getitem class_labels i) (\<lambda>c. Inr (d1(''class_labels'' \<mapsto> c)))
      else Inr d1) = Inr d2"
    "\<forall>k'. k' \<noteq> ''class_labels'' \<longrightarrow> d2 k' = d1 k'"
    "if class_labels = PyNone then d2 ''class_labels'' = d1 ''class_labels''
     else holds_slice d2 ''class_labels'' class_labels i"
    by blast
  have r: "target_record masks boxes class_labels i = Inr d2"
    unfolding target_record_def Let_def m bind_err_simps d1(1) d2(1) ..
  have pm: "d2 ''panoptic_masks'' = Some m"
    using d1(2) d2(2) by simp
  have bb: "d2 ''bounding_boxes'' = d1 ''bounding_boxes''"
    using d2(2) by simp
  have cl: "d1 ''class_labels'' = None"
    using d1(2) by simp
  have "holds_slice d2 ''panoptic_masks'' masks i"
    using pm m by (simp add: holds_slice_def)
  moreover have "if boxes = PyNone then d2 ''bounding_boxes'' = None
      else holds_slice d2 ''bounding_boxes'' boxes i"
    using d1(3) bb by (simp add: holds_slice_def split: if_splits)
  moreover have "if class_labels = PyNone then d2 ''class_labels'' = None
      else holds_slice d2 ''class_labels'' class_labels i"
    using d2(3) cl by (simp split: if_splits)
  ultimately show ?thesis using r by blast
qed


lemma getattr_Some: "attrs outputs name = Some v \<Longrightarrow> getattr outputs name = Inr v"
  by (simp add: getattr_def)

lemma getattr_None: "attrs outputs name = None \<Longrightarrow> getattr outputs name = Inl (AttributeError name)"
  by (simp add: getattr_def)

lemma adapt_output_plain_dict:
  "adapt_output (plain_dict d) = Inl (AttributeError ''logits'')"
  by (simp add: adapt_output_def plain_dict_def getattr_def bind_err_simps Let_def)

lemma adapt_output_loss_fallback:
  assumes "attrs outputs ''loss'' = None"
    and "case items outputs of None \<Rightarrow> True | Some d \<Rightarrow> d ''loss'' = None"
    and "attrs outputs ''logits'' = Some logits"
    and "attrs outputs ''pred_boxes'' = Some pred_boxes"
    and "attrs outputs ''pred_masks'' = Some pred_masks"
    and "attrs outputs ''pred_panoptic_seg'' = Some pred_panoptic_seg"
  shows "adapt_output outputs =
     Inr [''loss'' \<mapsto> PyNone,
          ''logits'' \<mapsto> logits,
          ''pred_boxes'' \<mapsto> pred_boxes,
          ''pred_masks'' \<mapsto> pred_masks,
          ''pred_panoptic_seg'' \<mapsto> pred_panoptic_seg,
          ''loss_dict'' \<mapsto> (case attrs outputs ''loss_dict'' of None \<Rightarrow> PyDict [] | Some v \<Rightarrow> v)]"
proof -
  have loss: "(let loss0 = getattr_default outputs ''loss'' PyNone
        in case items outputs of
             Some d \<Rightarrow> if loss0 = PyNone then dict_get d ''loss'' else loss0
           | None \<Rightarrow> loss0) = PyNone"
    using assms(1,2) by (simp add: getattr_default_def dict_get_def split: option.splits)
  show ?thesis
    unfolding adapt_output_def Let_def
    using loss [unfolded Let_def]
    by (simp only: getattr_Some [OF assms(3)] getattr_Some [OF assms(4)]
        getattr_Some [OF assms(5)] getattr_Some [OF assms(6)] bind_err_simps getattr_default_def)
qed

lemma adapt_output_fails_iff:
  "(\<exists>e. adapt_output outputs = Inl e) \<longleftrightarrow>
     (attrs outputs ''logits'' = None \<or> attrs outputs ''pred_boxes'' = None
      \<or> attrs outputs ''pred_masks'' = None \<or> attrs outputs ''pred_panoptic_seg'' = None)"
proof (cases "attrs outputs ''logits''")
  case None
  then show ?thesis by (simp add: adapt_output_def Let_def getattr_None bind_err_simps)
next
  case l: (Some l)
  show ?thesis
  proof (cases "attrs outputs ''pred_boxes''")
    case None
    with l show ?thesis
      by (simp add: adapt_output_def Let_def getattr_None getattr_Some bind_err_simps)
  next
    case b: (Some b)
    show ?thesis
    proof (cases "attrs outputs ''pred_masks''")
      case None
      with l b show ?thesis
        by (simp add: adapt_output_def Let_def getattr_None getattr_Some bind_err_simps)
    next
      case m: (Some m)
      show ?thesis
      proof (cases "attrs outputs ''pred_panoptic_seg''")
        case None
        with l b m show ?thesis
          by (simp add: adapt_output_def Let_def getattr_None getattr_Some bind_err_simps)
      next
        case (Some p)
        with l b m show ?thesis
          by (simp add: adapt_output_def Let_def getattr_Some bind_err_simps)
      qed
    qed
  qed
qed

subsection \<open>Targets\<close>

text \<open>
  C5. When the target mapping has neither the key \<^verbatim>\<open>panoptic_masks\<close> nor the key
  \<^verbatim>\<open>labels\<close>, \<^verbatim>\<open>format_targets\<close> fails: it raises a \<^verbatim>\<open>ValueError\<close> (the schema
  error of this operation), and the message of the error contains both accepted key names.
\<close>

theorem format_targets_missing_masks:
  assumes "targets ''panoptic_masks'' = None" and "targets ''labels'' = None"
  shows "format_targets targets = Inl (ValueError targets_message)
    \<and> sublist ''panoptic_masks'' targets_message
    \<and> sublist ''labels'' targets_message"
proof -
  have "format_targets targets = Inl (ValueError targets_message)"
    using assms by (simp add: format_targets_def bind_err_simps)
  moreover have "sublist ''panoptic_masks'' targets_message"
    by code_simp
  moreover have "sublist ''labels'' targets_message"
    by code_simp
  ultimately show ?thesis by simp
qed

theorem format_targets_missing_masks_witness:
  "format_targets [''bounding_boxes'' \<mapsto> PyTensor (Stack [Scalar (1::int)])] =
     Inl (ValueError targets_message)
   \<and> sublist ''panoptic_masks'' targets_message
   \<and> sublist ''labels'' targets_message"
  using format_targets_missing_masks
    [of "[''bounding_boxes'' \<mapsto> PyTensor (Stack [Scalar (1::int)])]"]
  by simp

text \<open>
  C6. When the annotation mapping has both keys, \<^verbatim>\<open>adapt_targets\<close> stores the value of
  \<^verbatim>\<open>panoptic_masks\<close> under \<^verbatim>\<open>labels\<close>, \<^verbatim>\<open>format_targets\<close> slices the value of
  \<^verbatim>\<open>panoptic_masks\<close>, and neither result depends on what \<^verbatim>\<open>labels\<close> holds: changing
  or removing that entry (\<open>x\<close> is any value or none) changes nothing.
\<close>

theorem panoptic_masks_priority:
  assumes "targets ''panoptic_masks'' = Some pm" and "targets ''labels'' = Some lb"
  shows "adapt_targets targets ''labels'' = Some pm
    \<and> adapt_targets (targets(''labels'' := x)) = adapt_targets targets
    \<and> format_targets targets =
        bind_err (py_shape0 pm) (\<lambda>n.
          collect (target_record pm (dict_get targets ''bounding_boxes'')
            (dict_get targets ''class_labels'')) [0..<n] [])
    \<and> format_targets (targets(''labels'' := x)) = format_targets targets"
  using assms
  by (simp add: adapt_targets_def format_targets_def dict_get_def Let_def bind_err_simps
      split: option.splits)

theorem panoptic_masks_priority_witness:
  "adapt_targets [''panoptic_masks'' \<mapsto> PyTensor (Stack [Scalar (1::int)]),
                  ''labels'' \<mapsto> PyTensor (Stack [Scalar 2])] ''labels''
     = Some (PyTensor (Stack [Scalar 1]))"
  using panoptic_masks_priority
    [of "[''panoptic_masks'' \<mapsto> PyTensor (Stack [Scalar (1::int)]),
          ''labels'' \<mapsto> PyTensor (Stack [Scalar 2])]"
        "PyTensor (Stack [Scalar 1])" "PyTensor (Stack [Scalar 2])"]
  by simp

text \<open>
  C7. \<^verbatim>\<open>adapt_targets\<close> is a re-keying of a subset of its input: every value of the
  output is the value of some key of the input, the output has no key but \<^verbatim>\<open>labels\<close>,
  \<^verbatim>\<open>boxes\<close> and \<^verbatim>\<open>class_labels\<close>, and each of them is present exactly when its
  source key is present in the input, with the same value (nothing is defaulted).
\<close>

theorem adapt_targets_rekeying:
  "ran (adapt_targets targets) \<subseteq> ran targets
   \<and> dom (adapt_targets targets) \<subseteq> {''labels'', ''boxes'', ''class_labels''}
   \<and> adapt_targets targets ''labels'' =
       (case targets ''panoptic_masks'' of Some v \<Rightarrow> Some v | None \<Rightarrow> targets ''labels'')
   \<and> adapt_targets targets ''boxes'' = targets ''bounding_boxes''
   \<and> adapt_targets targets ''class_labels'' = targets ''class_labels''"
proof -
  have "ran (adapt_targets targets) \<subseteq> ran targets"
  proof
    fix v assume "v \<in> ran (adapt_targets targets)"
    then obtain k where "adapt_targets targets k = Some v" by (auto simp: ran_def)
    from adapt_targets_SomeD [OF this] show "v \<in> ran targets"
      by (auto intro: ranI)
  qed
  moreover have "dom (adapt_targets targets) \<subseteq> {''labels'', ''boxes'', ''class_labels''}"
  proof
    fix k assume "k \<in> dom (adapt_targets targets)"
    then obtain v where "adapt_targets targets k = Some v" by blast
    from adapt_targets_SomeD [OF this] show "k \<in> {''labels'', ''boxes'', ''class_labels''}"
      by blast
  qed
  moreover have "adapt_targets targets ''labels'' =
       (case targets ''panoptic_masks'' of Some v \<Rightarrow> Some v | None \<Rightarrow> targets ''labels'')"
    by (simp add: adapt_targets_apply)
  moreover have "adapt_targets targets ''boxes'' = targets ''bounding_boxes''"
    by (simp add: adapt_targets_apply)
  moreover have "adapt_targets targets ''class_labels'' = targets ''class_labels''"
    by (simp add: adapt_targets_apply)
  ultimately show ?thesis by blast
qed

text \<open>
  C8, as stated, fails: for a mapping with neither \<^verbatim>\<open>panoptic_masks\<close> nor \<^verbatim>\<open>labels\<close>,
  \<^verbatim>\<open>adapt_targets\<close> returns a mapping, and that mapping has no \<^verbatim>\<open>labels\<close> entry.
\<close>

theorem adapt_targets_omits_labels:
  "adapt_targets [''bounding_boxes'' \<mapsto> PyTensor (Stack [Scalar (1::int)])] =
     [''boxes'' \<mapsto> PyTensor (Stack [Scalar 1])]"
  by (simp add: adapt_targets_def)

text \<open>
  C8, amended. \<^verbatim>\<open>adapt_targets\<close> has no failing branch: it returns a mapping for every
  input, and that mapping lacks the \<^verbatim>\<open>labels\<close> entry exactly when the input has
  neither \<^verbatim>\<open>panoptic_masks\<close> nor \<^verbatim>\<open>labels\<close>.
\<close>

theorem adapt_targets_labels_absent_iff:
  "(adapt_targets targets ''labels'' = None) =
     (targets ''panoptic_masks'' = None \<and> targets ''labels'' = None)"
  by (simp add: adapt_targets_def Let_def split: option.splits)

subsection \<open>Per-sample records\<close>

text \<open>
  C1. For a batch of \<open>N\<close> samples (every batched field of the outputs and of the
  targets has leading dimension \<open>N\<close>, an optional target field may be missing or
  \<^verbatim>\<open>None\<close>, and the library's argmax returns on every slice of the logits),
  \<^verbatim>\<open>format_predictions\<close> and \<^verbatim>\<open>format_targets\<close> each return a list of exactly
  \<open>N\<close> records, and the record at index \<open>i\<close> holds, under each of its keys, the slice
  at index \<open>i\<close> of the field it comes from (the argmax of that slice for the class
  predictions); an optional target field that is missing is missing from every record.
\<close>

theorem format_index_correspondence:
  assumes "outputs ''logits'' = Some logits"
    and "outputs ''pred_boxes'' = Some pred_boxes"
    and "outputs ''pred_masks'' = Some pred_masks"
    and "outputs ''pred_panoptic_seg'' = Some pred_panoptic_seg"
    and "py_shape0 logits = Inr N"
    and "py_shape0 pred_boxes = Inr N"
    and "py_shape0 pred_masks = Inr N"
    and "py_shape0 pred_panoptic_seg = Inr N"
    and "\<forall>i < N. \<exists>c. bind_err (py_getitem logits i) (py_argmax argmax) = Inr c"
    and "targets ''panoptic_masks'' = Some masks
         \<or> targets ''panoptic_masks'' = None \<and> targets ''labels'' = Some masks"
    and "py_shape0 masks = Inr N"
    and "boxes = dict_get targets ''bounding_boxes''"
    and "boxes = PyNone \<or> py_shape0 boxes = Inr N"
    and "class_labels = dict_get targets ''class_labels''"
    and "class_labels = PyNone \<or> py_shape0 class_labels = Inr N"
  shows "\<exists>ps ts.
      format_predictions argmax outputs = Inr ps \<and> length ps = N
    \<and> format_targets targets = Inr ts \<and> length ts = N
    \<and> (\<forall>i < N.
          holds_slice (ps ! i) ''panoptic_masks'' pred_panoptic_seg i
        \<and> holds_slice (ps ! i) ''instance_masks'' pred_masks i
        \<and> holds_slice (ps ! i) ''bounding_boxes'' pred_boxes i
        \<and> map_option Inr ((ps ! i) ''class_predictions'') =
            Some (bind_err (py_getitem logits i) (py_argmax argmax))
        \<and> holds_slice (ts ! i) ''panoptic_masks'' masks i
        \<and> (if boxes = PyNone then (ts ! i) ''bounding_boxes'' = None
            else holds_slice (ts ! i) ''bounding_boxes'' boxes i)
        \<and> (if class_labels = PyNone then (ts ! i) ''class_labels'' = None
            else holds_slice (ts ! i) ''class_labels'' class_labels i))"
proof -
  let ?f = "prediction_record argmax logits pred_boxes pred_masks pred_panoptic_seg"
  let ?g = "target_record masks boxes class_labels"
  have f: "\<exists>p m b c. py_getitem pred_panoptic_seg i = Inr p \<and> py_getitem pred_masks i = Inr m
      \<and> py_getitem pred_boxes i = Inr b
      \<and> bind_err (py_getitem logits i) (py_argmax argmax) = Inr c
      \<and> ?f i = Inr [''panoptic_masks'' \<mapsto> p, ''instance_masks'' \<mapsto> m, ''bounding_boxes'' \<mapsto> b,
               ''class_predictions'' \<mapsto> c]" if "i < N" for i
  proof -
    from assms(9) that obtain c where "bind_err (py_getitem logits i) (py_argmax argmax) = Inr c"
      by blast
    with prediction_record_Inr [OF assms(5-8) that that that that this] show ?thesis
      by blast
  qed
  then have "\<And>i. i < N \<Longrightarrow> \<exists>r. ?f i = Inr r" by blast
  from collect_range [of N ?f, OF this]
  obtain ps where ps: "collect ?f [0..<N] [] = Inr ps" "length ps = N"
    "\<forall>i < N. ?f i = Inr (ps ! i)" by blast
  have fp: "format_predictions argmax outputs = Inr ps"
    using assms(1-5) ps(1)
    by (simp add: format_predictions_def dict_getitem_def bind_err_simps)
  have g: "\<exists>r. ?g i = Inr r
      \<and> holds_slice r ''panoptic_masks'' masks i
      \<and> (if boxes = PyNone then r ''bounding_boxes'' = None
          else holds_slice r ''bounding_boxes'' boxes i)
      \<and> (if class_labels = PyNone then r ''class_labels'' = None
          else holds_slice r ''class_labels'' class_labels i)" if "i < N" for i
    using target_record_Inr [OF assms(11) assms(13) assms(15) that] .
  then have "\<And>i. i < N \<Longrightarrow> \<exists>r. ?g i = Inr r" by blast
  from collect_range [of N ?g, OF this]
  obtain ts where ts: "collect ?g [0..<N] [] = Inr ts" "length ts = N"
    "\<forall>i < N. ?g i = Inr (ts ! i)" by blast
  have ft: "format_targets targets = Inr ts"
    using assms(10-12) assms(14) ts(1)
    by (auto simp add: format_targets_def bind_err_simps)
  have "holds_slice (ps ! i) ''panoptic_masks'' pred_panoptic_seg i
        \<and> holds_slice (ps ! i) ''instance_masks'' pred_masks i
        \<and> holds_slice (ps ! i) ''bounding_boxes'' pred_boxes i
        \<and> map_option Inr ((ps ! i) ''class_predictions'') =
            Some (bind_err (py_getitem logits i) (py_argmax argmax))
        \<and> holds_slice (ts ! i) ''panoptic_masks'' masks i
        \<and> (if boxes = PyNone then (ts ! i) ''bounding_boxes'' = None
            else holds_slice (ts ! i) ''bounding_boxes'' boxes i)
        \<and> (if class_labels = PyNone then (ts ! i) ''class_labels'' = None
            else holds_slice (ts ! i) ''class_labels'' class_labels i)" if "i < N" for i
  proof -
    from f [OF that] ps(3) that obtain p m b c where
      "py_getitem pred_panoptic_seg i = Inr p" "py_getitem pred_masks i = Inr m"
      "py_getitem pred_boxes i = Inr b"
      "bind_err (py_getitem logits i) (py_argmax argmax) = Inr c"
      "ps ! i = [''panoptic_masks'' \<mapsto> p, ''instance_masks'' \<mapsto> m, ''bounding_boxes'' \<mapsto> b,
               ''class_predictions'' \<mapsto> c]"
      by force
    then have "holds_slice (ps ! i) ''panoptic_masks'' pred_panoptic_seg i
        \<and> holds_slice (ps ! i) ''instance_masks'' pred_masks i
        \<and> holds_slice (ps ! i) ''bounding_boxes'' pred_boxes i
        \<and> map_option Inr ((ps ! i) ''class_predictions'') =
            Some (bind_err (py_getitem logits i) (py_argmax argmax))"
      by (simp add: holds_slice_def)
    moreover from g [OF that] ts(3) that have
      "holds_slice (ts ! i) ''panoptic_masks'' masks i
        \<and> (if boxes = PyNone then (ts ! i) ''bounding_boxes'' = None
            else holds_slice (ts ! i) ''bounding_boxes'' boxes i)
        \<and> (if class_labels = PyNone then (ts ! i) ''class_labels'' = None
            else holds_slice (ts ! i) ''class_labels'' class_labels i)"
      by force
    ultimately show ?thesis
      by blast
  qed
  with fp ft ps(2) ts(2) show ?thesis by blast
qed

theorem format_index_correspondence_witness:
  "\<exists>ps ts.
      format_predictions argmax_zero example_outputs = Inr ps \<and> length ps = 2
    \<and> format_targets example_targets = Inr ts \<and> length ts = 2
    \<and> (\<forall>i < 2.
          holds_slice (ps ! i) ''panoptic_masks'' (PyTensor (Stack [Scalar 30, Scalar 31])) i
        \<and> holds_slice (ps ! i) ''instance_masks'' (PyTensor (Stack [Scalar 20, Scalar 21])) i
        \<and> holds_slice (ps ! i) ''bounding_boxes'' (PyTensor (Stack [Scalar 10, Scalar 11])) i
        \<and> map_option Inr ((ps ! i) ''class_predictions'') =
            Some (bind_err
              (py_getitem (PyTensor (Stack [Stack [Scalar 1, Scalar 5], Stack [Scalar 7, Scalar 2]])) i)
              (py_argmax argmax_zero))
        \<and> holds_slice (ts ! i) ''panoptic_masks'' (PyTensor (Stack [Scalar 40, Scalar 41])) i
        \<and> (if PyTensor (Stack [Scalar 50, Scalar 51]) = (PyNone :: int pyval)
            then (ts ! i) ''bounding_boxes'' = None
            else holds_slice (ts ! i) ''bounding_boxes'' (PyTensor (Stack [Scalar 50, Scalar 51])) i)
        \<and> (if (PyNone :: int pyval) = PyNone then (ts ! i) ''class_labels'' = None
            else holds_slice (ts ! i) ''class_labels'' PyNone i))"
proof -
  let ?l = "PyTensor (Stack [Stack [Scalar 1, Scalar 5], Stack [Scalar 7, Scalar 2]]) :: int pyval"
  let ?b = "PyTensor (Stack [Scalar 10, Scalar 11]) :: int pyval"
  let ?m = "PyTensor (Stack [Scalar 20, Scalar 21]) :: int pyval"
  let ?p = "PyTensor (Stack [Scalar 30, Scalar 31]) :: int pyval"
  have o1: "example_outputs ''logits'' = Some ?l" by (simp add: example_outputs_def)
  have o2: "example_outputs ''pred_boxes'' = Some ?b" by (simp add: example_outputs_def)
  have o3: "example_outputs ''pred_masks'' = Some ?m" by (simp add: example_outputs_def)
  have o4: "example_outputs ''pred_panoptic_seg'' = Some ?p" by (simp add: example_outputs_def)
  have s1: "py_shape0 ?l = Inr 2" by simp
  have s2: "py_shape0 ?b = Inr 2" by simp
  have s3: "py_shape0 ?m = Inr 2" by simp
  have s4: "py_shape0 ?p = Inr 2" by simp
  have am: "\<forall>i<2. \<exists>c. bind_err (py_getitem ?l i) (py_argmax argmax_zero) = Inr c"
    by (simp add: bind_err_simps argmax_zero_def)
  let ?tm = "PyTensor (Stack [Scalar 40, Scalar 41]) :: int pyval"
  let ?tb = "PyTensor (Stack [Scalar 50, Scalar 51]) :: int pyval"
  have t1: "example_targets ''panoptic_masks'' = Some ?tm
      \<or> example_targets ''panoptic_masks'' = None \<and> example_targets ''labels'' = Some ?tm"
    by (simp add: example_targets_def)
  have t2: "py_shape0 ?tm = Inr 2" by simp
  have t3: "?tb = dict_get example_targets ''bounding_boxes''"
    by (simp add: example_targets_def dict_get_def)
  have t4: "?tb = PyNone \<or> py_shape0 ?tb = Inr 2" by simp
  have t5: "(PyNone :: int pyval) = dict_get example_targets ''class_labels''"
    by (simp add: example_targets_def dict_get_def)
  have t6: "(PyNone :: int pyval) = PyNone \<or> py_shape0 (PyNone :: int pyval) = Inr 2" by simp
  show ?thesis
    by (rule format_index_correspondence [OF o1 o2 o3 o4 s1 s2 s3 s4 am t1 t2 t3 t4 t5 t6])
qed

text \<open>
  C4, as stated, fails: the fields of \<open>uneven_outputs\<close> do not share one leading
  dimension (the logits have one slice, the boxes two), and \<^verbatim>\<open>format_predictions\<close>
  returns a record for the single slice of the logits instead of failing.
\<close>

theorem format_predictions_uneven_batch:
  "py_shape0 (PyTensor (Stack [Stack [Scalar (1::int), Scalar 5]])) = Inr 1
   \<and> py_shape0 (PyTensor (Stack [Scalar (10::int), Scalar 11])) = Inr 2
   \<and> format_predictions argmax_zero uneven_outputs =
       Inr [[''panoptic_masks'' \<mapsto> PyTensor (Scalar 30),
             ''instance_masks'' \<mapsto> PyTensor (Scalar 20),
             ''bounding_boxes'' \<mapsto> PyTensor (Scalar 10),
             ''class_predictions'' \<mapsto> PyTensor (Scalar 0)]]"
  by (simp add: format_predictions_def uneven_outputs_def dict_getitem_def bind_err_simps
      prediction_record_def argmax_zero_def)

text \<open>
  C4, amended. When the four prediction fields are batched tensors with leading dimensions
  \<open>N\<close> (logits), \<open>Nb\<close>, \<open>Nm\<close> and \<open>Np\<close>, and the library's argmax returns on
  every slice of the logits: \<^verbatim>\<open>format_predictions\<close> returns exactly \<open>N\<close> records when
  none of the other fields is shorter than the logits (a longer field is not rejected, its
  further slices are not read), and raises \<^verbatim>\<open>IndexError\<close> when one of them is shorter.
\<close>

theorem format_predictions_batch_dims:
  assumes "outputs ''logits'' = Some logits"
    and "outputs ''pred_boxes'' = Some pred_boxes"
    and "outputs ''pred_masks'' = Some pred_masks"
    and "outputs ''pred_panoptic_seg'' = Some pred_panoptic_seg"
    and "py_shape0 logits = Inr N"
    and "py_shape0 pred_boxes = Inr Nb"
    and "py_shape0 pred_masks = Inr Nm"
    and "py_shape0 pred_panoptic_seg = Inr Np"
    and "\<forall>i < N. \<exists>c. bind_err (py_getitem logits i) (py_argmax argmax) = Inr c"
  shows "if N \<le> Nb \<and> N \<le> Nm \<and> N \<le> Np
         then \<exists>rs. format_predictions argmax outputs = Inr rs \<and> length rs = N
         else format_predictions argmax outputs = Inl IndexError"
proof -
  let ?f = "prediction_record argmax logits pred_boxes pred_masks pred_panoptic_seg"
  have fp: "format_predictions argmax outputs = collect ?f [0..<N] []"
    using assms(1-5) by (simp add: format_predictions_def dict_getitem_def bind_err_simps)
  have ok: "\<exists>r. ?f i = Inr r" if "i < N" "i < Nb" "i < Nm" "i < Np" for i
  proof -
    from assms(9) that(1) obtain c where
      "bind_err (py_getitem logits i) (py_argmax argmax) = Inr c" by blast
    from prediction_record_Inr [OF assms(5-8) that this] show ?thesis by blast
  qed
  show ?thesis
  proof (cases "N \<le> Nb \<and> N \<le> Nm \<and> N \<le> Np")
    case True
    then have "\<And>i. i < N \<Longrightarrow> \<exists>r. ?f i = Inr r" using ok by simp
    from collect_range [of N ?f, OF this] fp True show ?thesis by auto
  next
    case False
    define j where "j = min Nb (min Nm Np)"
    from False have j: "j < N" "\<not> (j < Nb \<and> j < Nm \<and> j < Np)"
      by (auto simp: j_def)
    have "?f j = Inl IndexError"
      using prediction_record_IndexError [OF assms(5-8) j(2)] .
    with j(1) have ex: "\<exists>i \<in> set [0..<N]. ?f i = Inl IndexError" by auto
    have "?f i = Inl IndexError \<or> (\<exists>r. ?f i = Inr r)" if "i \<in> set [0..<N]" for i
    proof (cases "i < Nb \<and> i < Nm \<and> i < Np")
      case True
      with that ok [of i] show ?thesis by simp
    next
      case False
      from prediction_record_IndexError [OF assms(5-8) this] show ?thesis by simp
    qed
    from collect_Inl [of "[0..<N]" ?f IndexError, OF this ex] fp False show ?thesis by simp
  qed
qed

theorem format_predictions_batch_dims_witness:
  "if (2::nat) \<le> 2 \<and> (2::nat) \<le> 2 \<and> (2::nat) \<le> 2
   then \<exists>rs. format_predictions argmax_zero example_outputs = Inr rs \<and> length rs = 2
   else format_predictions argmax_zero example_outputs = Inl IndexError"
proof -
  let ?l = "PyTensor (Stack [Stack [Scalar 1, Scalar 5], Stack [Scalar 7, Scalar 2]]) :: int pyval"
  let ?b = "PyTensor (Stack [Scalar 10, Scalar 11]) :: int pyval"
  let ?m = "PyTensor (Stack [Scalar 20, Scalar 21]) :: int pyval"
  let ?p = "PyTensor (Stack [Scalar 30, Scalar 31]) :: int pyval"
  have o1: "example_outputs ''logits'' = Some ?l" by (simp add: example_outputs_def)
  have o2: "example_outputs ''pred_boxes'' = Some ?b" by (simp add: example_outputs_def)
  have o3: "example_outputs ''pred_masks'' = Some ?m" by (simp add: example_outputs_def)
  have o4: "example_outputs ''pred_panoptic_seg'' = Some ?p" by (simp add: example_outputs_def)
  have s1: "py_shape0 ?l = Inr 2" by simp
  have s2: "py_shape0 ?b = Inr 2" by simp
  have s3: "py_shape0 ?m = Inr 2" by simp
  have s4: "py_shape0 ?p = Inr 2" by simp
  have am: "\<forall>i<2. \<exists>c. bind_err (py_getitem ?l i) (py_argmax argmax_zero) = Inr c"
    by (simp add: bind_err_simps argmax_zero_def)
  show ?thesis
    by (rule format_predictions_batch_dims [OF o1 o2 o3 o4 s1 s2 s3 s4 am])
qed

subsection \<open>Model outputs\<close>

text \<open>
  C2, at a failing input. The raw output is a plain dictionary that holds every field the
  adapter requires (\<^verbatim>\<open>logits\<close>, \<^verbatim>\<open>pred_boxes\<close>, \<^verbatim>\<open>pred_masks\<close>,
  \<^verbatim>\<open>pred_panoptic_seg\<close>) as a key, and only the optional fields are absent; still
  \<^verbatim>\<open>adapt_output\<close> raises \<^verbatim>\<open>AttributeError\<close>, since it reads the required fields as
  attributes only.
\<close>

theorem adapt_output_plain_dict_fails:
  "example_outputs ''logits'' \<noteq> None
   \<and> example_outputs ''pred_boxes'' \<noteq> None
   \<and> example_outputs ''pred_masks'' \<noteq> None
   \<and> example_outputs ''pred_panoptic_seg'' \<noteq> None
   \<and> adapt_output (plain_dict example_outputs) = Inl (AttributeError ''logits'')"
  by (simp add: adapt_output_plain_dict) (simp add: example_outputs_def)

text \<open>
  C3, at a failing input. The same plain dictionary has no \<^verbatim>\<open>loss\<close> attribute and no
  \<^verbatim>\<open>loss\<close> key; \<^verbatim>\<open>adapt_output\<close> raises instead of returning an output whose loss
  is \<^verbatim>\<open>None\<close>. (For a raw output whose prediction fields are attributes, the output is
  returned with the loss \<^verbatim>\<open>None\<close>: \<open>adapt_output_loss_fallback\<close>.)
\<close>

theorem adapt_output_no_loss_plain_dict_fails:
  "attrs (plain_dict example_outputs) ''loss'' = None
   \<and> example_outputs ''loss'' = None
   \<and> items (plain_dict example_outputs) = Some example_outputs
   \<and> adapt_output (plain_dict example_outputs) = Inl (AttributeError ''logits'')"
  by (simp add: adapt_output_plain_dict) (simp add: example_outputs_def plain_dict_def)

subsection \<open>Selectors\<close>

text \<open>
  C9. For every model name, \<^verbatim>\<open>get_input_adapter\<close> builds the Mask2Former adapter when
  \<^verbatim>\<open>mask2former\<close> occurs in the lower-cased name and returns the no-op adapter
  otherwise, without failing. The lower-casing is Python's \<^verbatim>\<open>str.lower\<close>, of which the
  theorem assumes what it does on ASCII strings. For an ASCII name the match is a
  case-insensitive substring match: the pattern occurs in the lower-cased name exactly when
  some substring of the name equals the pattern up to the case of its letters. The name
  \<^verbatim>\<open>totally-unknown-arch\<close> gets the no-op adapter.
\<close>

theorem get_input_adapter_match:
  assumes "\<forall>s. is_ascii s \<longrightarrow> str_lower s = map ascii_lower s"
  shows "get_input_adapter str_lower from_pretrained model_name image_size =
     (if sublist (str ''mask2former'') (str_lower model_name)
      then Mask2FormerInputAdapter_init from_pretrained model_name
             (Some (image_size_arg image_size))
      else Inr NoOpInputAdapter)
   \<and> (is_ascii model_name \<longrightarrow>
        sublist (str ''mask2former'') (str_lower model_name) =
          (\<exists>u. sublist u model_name
             \<and> map ascii_lower u = map ascii_lower (str ''mask2former'')))
   \<and> get_input_adapter str_lower from_pretrained (str ''totally-unknown-arch'') (Some 512) =
       Inr NoOpInputAdapter"
proof -
  have general: "get_input_adapter str_lower from_pretrained n sz =
     (if sublist (str ''mask2former'') (str_lower n)
      then Mask2FormerInputAdapter_init from_pretrained n (Some (image_size_arg sz))
      else Inr NoOpInputAdapter)" for n sz
    by (simp add: get_input_adapter_def Let_def)
  have ascii: "sublist (str ''mask2former'') (str_lower model_name) =
      (\<exists>u. sublist u model_name \<and> map ascii_lower u = map ascii_lower (str ''mask2former''))"
    if "is_ascii model_name"
  proof -
    from assms that have "str_lower model_name = map ascii_lower model_name" by blast
    then show ?thesis
      unfolding ascii_lower_mask2former by (simp only: sublist_map_iff)
  qed
  have "str_lower (str ''totally-unknown-arch'') = map ascii_lower (str ''totally-unknown-arch'')"
    using assms unknown_is_ascii by blast
  with unknown_no_match
  have "\<not> sublist (str ''mask2former'') (str_lower (str ''totally-unknown-arch''))"
    by simp
  then have unknown:
    "get_input_adapter str_lower from_pretrained (str ''totally-unknown-arch'') (Some 512) =
       Inr NoOpInputAdapter"
    by (simp only: general if_False)
  from general [of model_name image_size] ascii unknown show ?thesis by blast
qed

theorem get_input_adapter_match_witness:
  "get_input_adapter example_lower example_from_pretrained kelvin_name (Some 512) =
     Inr (Mask2FormerInputAdapter 512 512)
   \<and> get_input_adapter example_lower example_from_pretrained (str ''totally-unknown-arch'')
       (Some 512) = Inr NoOpInputAdapter"
proof -
  have h: "\<forall>s. is_ascii s \<longrightarrow> example_lower s = map ascii_lower s"
    using example_lower_ascii by blast
  from get_input_adapter_match [OF h, of example_from_pretrained kelvin_name "Some 512"]
  have "get_input_adapter example_lower example_from_pretrained kelvin_name (Some 512) =
      Mask2FormerInputAdapter_init example_from_pretrained kelvin_name
        (Some (image_size_arg (Some 512)))"
    and "get_input_adapter example_lower example_from_pretrained (str ''totally-unknown-arch'')
       (Some 512) = Inr NoOpInputAdapter"
    using kelvin_match by simp_all
  then show ?thesis
    by (simp add: Mask2FormerInputAdapter_init_def image_size_arg_def
        example_from_pretrained_def bind_err_simps)
qed

text \<open>
  C10. \<^verbatim>\<open>get_panoptic_adapter\<close> returns what \<^verbatim>\<open>get_input_adapter\<close> returns for the
  same model name and image size, also when the image size is left to its default.
\<close>

theorem get_panoptic_adapter_eq:
  "get_panoptic_adapter str_lower from_pretrained model_name image_size =
     get_input_adapter str_lower from_pretrained model_name image_size"
  by (simp add: get_panoptic_adapter_def get_input_adapter_def image_size_arg_def Let_def)

end
